theory Spec2Isabelle
  imports Main "HOL-Library.AList"
begin

section \<open>Values received from clients\<close>

text \<open>
  The server is a JavaScript program; what a client sends is an arbitrary JSON value.
  A number is either integer-valued (\<open>Whole n\<close>) or anything else a double can be
  (a fraction, \<open>NaN\<close>, an infinity): the handlers only ever test \<open>x % 1 !== 0\<close> and
  \<open>x < 0\<close> on it, store it and send it back, so no arithmetic on doubles takes place.
  An object is the list of its own properties. A string is the list of its characters.
\<close>

datatype jsnum = Whole int | NotWhole

datatype jsval =
    JUndefined
  | JNull
  | JBoolean bool
  | JNumber jsnum
  | JString string
  | JObject "(string \<times> jsval) list"

datatype exn = TypeError

text \<open>
  \<open>data.name\<close>: reading a property of \<open>undefined\<close> or \<open>null\<close> throws a TypeError;
  a property an object does not have is \<open>undefined\<close>, and so is any of the names
  read here on a boolean, a number or a string. \<open>properties data\<close> is the exception,
  or the function from a name to what reading it yields.
\<close>

definition own_prop :: "(string \<times> jsval) list \<Rightarrow> string \<Rightarrow> jsval" where
  "own_prop props name = (case map_of props name of None \<Rightarrow> JUndefined | Some v \<Rightarrow> v)"

fun properties :: "jsval \<Rightarrow> exn + (string \<Rightarrow> jsval)" where
  "properties JUndefined = Inl TypeError"
| "properties JNull = Inl TypeError"
| "properties (JObject props) = Inr (own_prop props)"
| "properties v = Inr (\<lambda>name. JUndefined)"

text \<open>
  The test \<open>typeof x !== 'number' || x % 1 !== 0 || x < 0\<close> of the socket handlers:
  \<open>None\<close> when it rejects \<open>x\<close>, the number otherwise.
\<close>

fun nonneg_integer :: "jsval \<Rightarrow> int option" where
  "nonneg_integer (JNumber (Whole n)) = (if n < 0 then None else Some n)"
| "nonneg_integer v = None"

text \<open>The test \<open>typeof x !== 'number' || x % 1 !== 0\<close> of the legacy endpoints.\<close>

fun integer :: "jsval \<Rightarrow> int option" where
  "integer (JNumber (Whole n)) = Some n"
| "integer v = None"

datatype playstate = Playing | Paused

text \<open>
  The test \<open>typeof x !== 'string' || (x !== 'playing' && x !== 'paused')\<close>.
\<close>

fun playstate_of :: "jsval \<Rightarrow> playstate option" where
  "playstate_of (JString s) =
     (if s = ''playing'' then Some Playing else if s = ''paused'' then Some Paused else None)"
| "playstate_of v = None"

text \<open>
  The test \<open>typeof x !== 'string' || x.length !== 16\<close> of \<open>reboot\<close>.
\<close>

fun session_id_of :: "jsval \<Rightarrow> string option" where
  "session_id_of (JString s) = (if length s \<noteq> 16 then None else Some s)"
| "session_id_of v = None"

section \<open>Dates\<close>

text \<open>
  A \<open>Date\<close> holds a time value in milliseconds since the epoch, or is invalid
  (\<open>None\<close>; its \<open>getTime()\<close> is \<open>NaN\<close>). \<open>new Date(t)\<close> and \<open>setTime(t)\<close> clip:
  a time value beyond 8.64e15 ms in either direction makes the date invalid.
  \<open>new Date()\<close> is the reading \<open>now\<close> of the host clock, which is a time value.
\<close>

type_synonym jsdate = "int option"

definition max_time :: int where
  "max_time = 8640000000000000"

definition time_clip :: "int \<Rightarrow> jsdate" where
  "time_clip t = (if \<bar>t\<bar> > max_time then None else Some t)"

definition getTime :: "jsdate \<Rightarrow> jsnum" where
  "getTime d = (case d of None \<Rightarrow> NotWhole | Some t \<Rightarrow> Whole t)"

section \<open>State\<close>

type_synonym socket = nat

record session =
  session_id :: string
  lastActivity :: jsdate
  lastKnownTime :: int
  lastKnownTimeUpdatedAt :: jsdate
  state :: playstate
  userIds :: "string list"
  videoId :: int

record user =
  user_id :: string
  sessionId :: "string option"
  socket :: socket

text \<open>
  The two global objects. \<open>sessions\<close> is enumerated by the vacuum, so it is kept as the
  list of its properties in insertion order; \<open>users\<close> is only ever read by key.
\<close>

record server =
  sessions :: "(string \<times> session) list"
  users :: "string \<rightharpoonup> user"

definition init :: server where
  "init = \<lparr>sessions = [], users = Map.empty\<rparr>"

section \<open>What a handler sends\<close>

datatype reply =
    ErrorMessage string
  | RebootReply int jsnum playstate
  | CreateReply int jsnum string playstate
  | JoinReply int int jsnum playstate
  | LeaveReply
  | UpdateReply
  | PingReply int

datatype message = UserIdMessage string | UpdateMessage int jsnum playstate

datatype effect = Ack reply | Emit socket message

text \<open>
  A handler runs to completion and returns the new state with what it sent, in order,
  or throws: nothing catches the exception, and the process ends.
\<close>

type_synonym outcome = "exn + server \<times> effect list"

text \<open>
  \<open>fn(r)\<close>: the acknowledgement callback is \<open>undefined\<close> when the client sent the
  event without one (\<open>fn = False\<close>), and calling it throws.
\<close>

definition call_fn :: "bool \<Rightarrow> reply \<Rightarrow> server \<Rightarrow> outcome" where
  "call_fn fn r st = (if fn then Inr (st, [Ack r]) else Inl TypeError)"

section \<open>Vacuum\<close>

definition expired :: "int \<Rightarrow> session \<Rightarrow> bool" where
  "expired now s =
     (case lastActivity s of
        None \<Rightarrow> False
      | Some t \<Rightarrow> (case time_clip (t + 1000 * 60 * 60) of
                     None \<Rightarrow> False
                   | Some expiresAt \<Rightarrow> expiresAt < now))"

definition oldSessionIds :: "int \<Rightarrow> (string \<times> session) list \<Rightarrow> string list" where
  "oldSessionIds now ss =
     filter (\<lambda>k. case map_of ss k of
                   None \<Rightarrow> False
                 | Some s \<Rightarrow> expired now s \<and> length (userIds s) = 0)
       (map fst ss)"

definition vacuum :: "int \<Rightarrow> server \<Rightarrow> server" where
  "vacuum now st =
     st\<lparr>sessions := fold AList.delete (oldSessionIds now (sessions st)) (sessions st)\<rparr>"

section \<open>Legacy API\<close>

text \<open>
  The body parser hands every request an object as its body (\<open>{}\<close> when there is
  none), so reading a property of the body never throws.
\<close>

datatype response = Status nat string | Json session

definition post_sessions_create ::
  "string \<Rightarrow> int \<Rightarrow> (string \<times> jsval) list \<Rightarrow> server \<Rightarrow> server \<times> response" where
  "post_sessions_create newId now body st =
     (if own_prop body ''videoId'' = JUndefined
      then (st, Status 500 ''Missing parameter: videoId'')
      else
        (case integer (own_prop body ''videoId'') of
           None \<Rightarrow> (st, Status 500 ''Invalid parameter: videoId'')
         | Some vid \<Rightarrow>
             let s = \<lparr>session_id = newId, lastActivity = Some now, lastKnownTime = 0,
                      lastKnownTimeUpdatedAt = Some now, state = Paused, userIds = [],
                      videoId = vid\<rparr>
             in (st\<lparr>sessions := AList.update newId s (sessions st)\<rparr>, Json s)))"

definition post_sessions_update ::
  "string \<Rightarrow> int \<Rightarrow> (string \<times> jsval) list \<Rightarrow> server \<Rightarrow> server \<times> response" where
  "post_sessions_update sid now body st =
     (case map_of (sessions st) sid of
        None \<Rightarrow> (st, Status 404 (''Unknown session id: '' @ sid))
      | Some s \<Rightarrow>
          if own_prop body ''lastKnownTime'' = JUndefined
          then (st, Status 500 ''Missing parameter: lastKnownTime'')
          else
            (case integer (own_prop body ''lastKnownTime'') of
               None \<Rightarrow> (st, Status 500 ''Invalid parameter: lastKnownTime'')
             | Some time \<Rightarrow>
                 if time < 0 then (st, Status 500 ''Invalid parameter: lastKnownTime'')
                 else if own_prop body ''state'' = JUndefined
                 then (st, Status 500 ''Missing parameter: state'')
                 else
                   (case playstate_of (own_prop body ''state'') of
                      None \<Rightarrow> (st, Status 500 ''Invalid parameter: state'')
                    | Some ps \<Rightarrow>
                        let s' = s\<lparr>lastActivity := Some now, lastKnownTime := time,
                                   lastKnownTimeUpdatedAt := Some now, state := ps\<rparr>
                        in (st\<lparr>sessions := AList.update sid s' (sessions st)\<rparr>, Json s'))))"

definition get_sessions :: "string \<Rightarrow> int \<Rightarrow> server \<Rightarrow> server \<times> response" where
  "get_sessions sid now st =
     (case map_of (sessions st) sid of
        None \<Rightarrow> (st, Status 404 (''Unknown session id: '' @ sid))
      | Some s \<Rightarrow>
          let s' = s\<lparr>lastActivity := Some now\<rparr>
          in (st\<lparr>sessions := AList.update sid s' (sessions st)\<rparr>, Json s'))"

section \<open>Websockets API\<close>

text \<open>
  Every handler below is the one registered for the connection of user \<open>userId\<close>.
  \<open>users[userId]\<close> is a property read that yields \<open>undefined\<close> when the user is not
  in the registry, and the next property access on it throws; the same holds for
  \<open>sessions[sessionId]\<close>. \<open>makeId()\<close> draws a random identifier, passed in as
  \<open>newId\<close>.
\<close>

definition connection :: "string \<Rightarrow> socket \<Rightarrow> server \<Rightarrow> outcome" where
  "connection newId sock st =
     Inr (st\<lparr>users := (users st)(newId \<mapsto> \<lparr>user_id = newId, sessionId = None, socket = sock\<rparr>)\<rparr>,
          [Emit sock (UserIdMessage newId)])"

definition reboot_reply :: "string \<Rightarrow> bool \<Rightarrow> server \<Rightarrow> outcome" where
  "reboot_reply sid fn st =
     (case map_of (sessions st) sid of
        None \<Rightarrow> Inl TypeError
      | Some s \<Rightarrow>
          call_fn fn (RebootReply (lastKnownTime s) (getTime (lastKnownTimeUpdatedAt s)) (state s)) st)"

definition reboot_session ::
  "string \<Rightarrow> int \<Rightarrow> string \<Rightarrow> int \<Rightarrow> int \<Rightarrow> playstate \<Rightarrow> int \<Rightarrow> bool \<Rightarrow> server \<Rightarrow> outcome" where
  "reboot_session userId now sid time updatedAt ps vid fn st =
     (case map_of (sessions st) sid of
        Some s \<Rightarrow>
          let st1 = st\<lparr>sessions := AList.update sid (s\<lparr>userIds := userIds s @ [userId]\<rparr>) (sessions st)\<rparr>
          in (case users st1 userId of
                None \<Rightarrow> Inl TypeError
              | Some u \<Rightarrow>
                  reboot_reply sid fn (st1\<lparr>users := (users st1)(userId \<mapsto> u\<lparr>sessionId := Some sid\<rparr>)\<rparr>))
      | None \<Rightarrow>
          let s = \<lparr>session_id = sid, lastActivity = Some now, lastKnownTime = time,
                   lastKnownTimeUpdatedAt = time_clip updatedAt, state = ps,
                   userIds = [userId], videoId = vid\<rparr>;
              st1 = st\<lparr>sessions := AList.update sid s (sessions st)\<rparr>
          in (case users st1 userId of
                None \<Rightarrow> Inl TypeError
              | Some u \<Rightarrow>
                  reboot_reply sid fn (st1\<lparr>users := (users st1)(userId \<mapsto> u\<lparr>sessionId := Some sid\<rparr>)\<rparr>)))"

definition reboot :: "string \<Rightarrow> int \<Rightarrow> jsval \<Rightarrow> bool \<Rightarrow> server \<Rightarrow> outcome" where
  "reboot userId now data fn st =
     (case properties data of
        Inl e \<Rightarrow> Inl e
      | Inr d \<Rightarrow>
     (case session_id_of (d ''sessionId'') of
        None \<Rightarrow> call_fn fn (ErrorMessage ''Invalid session ID.'') st
      | Some sid \<Rightarrow>
     (case nonneg_integer (d ''lastKnownTime'') of
        None \<Rightarrow> call_fn fn (ErrorMessage ''Invalid lastKnownTime.'') st
      | Some time \<Rightarrow>
     (case nonneg_integer (d ''lastKnownTimeUpdatedAt'') of
        None \<Rightarrow> call_fn fn (ErrorMessage ''Invalid lastKnownTimeUpdatedAt.'') st
      | Some updatedAt \<Rightarrow>
     (case playstate_of (d ''state'') of
        None \<Rightarrow> call_fn fn (ErrorMessage ''Invalid state.'') st
      | Some ps \<Rightarrow>
     (case nonneg_integer (d ''videoId'') of
        None \<Rightarrow> call_fn fn (ErrorMessage ''Invalid video ID.'') st
      | Some vid \<Rightarrow> reboot_session userId now sid time updatedAt ps vid fn st))))))"

definition createSession :: "string \<Rightarrow> string \<Rightarrow> int \<Rightarrow> jsval \<Rightarrow> bool \<Rightarrow> server \<Rightarrow> outcome" where
  "createSession userId newId now videoId_arg fn st =
     (case nonneg_integer videoId_arg of
        None \<Rightarrow> call_fn fn (ErrorMessage ''Invalid video ID.'') st
      | Some vid \<Rightarrow>
          (case users st userId of
             None \<Rightarrow> Inl TypeError
           | Some u \<Rightarrow>
               let st1 = st\<lparr>users := (users st)(userId \<mapsto> u\<lparr>sessionId := Some newId\<rparr>)\<rparr>;
                   s = \<lparr>session_id = newId, lastActivity = Some now, lastKnownTime = 0,
                        lastKnownTimeUpdatedAt = Some now, state = Paused,
                        userIds = [userId], videoId = vid\<rparr>;
                   st2 = st1\<lparr>sessions := AList.update newId s (sessions st1)\<rparr>
               in (case map_of (sessions st2) newId of
                     None \<Rightarrow> Inl TypeError
                   | Some s' \<Rightarrow>
                       call_fn fn
                         (CreateReply (lastKnownTime s') (getTime (lastKnownTimeUpdatedAt s'))
                            newId (state s'))
                         st2)))"

text \<open>
  The test \<open>typeof sessionId !== 'string' || !sessions.hasOwnProperty(sessionId)\<close> of
  \<open>joinSession\<close>: \<open>None\<close> when it rejects the argument, the id and \<open>sessions[sessionId]\<close>
  otherwise.
\<close>

fun known_session :: "(string \<times> session) list \<Rightarrow> jsval \<Rightarrow> (string \<times> session) option" where
  "known_session ss (JString sid) =
     (case map_of ss sid of None \<Rightarrow> None | Some s \<Rightarrow> Some (sid, s))"
| "known_session ss v = None"

definition joinSession :: "string \<Rightarrow> jsval \<Rightarrow> bool \<Rightarrow> server \<Rightarrow> outcome" where
  "joinSession userId sessionId_arg fn st =
     (case known_session (sessions st) sessionId_arg of
        None \<Rightarrow> call_fn fn (ErrorMessage ''Invalid session ID.'') st
      | Some (sid, s) \<Rightarrow>
          (case users st userId of
             None \<Rightarrow> Inl TypeError
           | Some u \<Rightarrow>
               if sessionId u \<noteq> None then call_fn fn (ErrorMessage ''Already in a session.'') st
               else
                 let s' = s\<lparr>userIds := userIds s @ [userId]\<rparr>;
                     st' = st\<lparr>users := (users st)(userId \<mapsto> u\<lparr>sessionId := Some sid\<rparr>),
                              sessions := AList.update sid s' (sessions st)\<rparr>
                 in call_fn fn
                      (JoinReply (videoId s') (lastKnownTime s')
                         (getTime (lastKnownTimeUpdatedAt s')) (state s'))
                      st'))"

text \<open>
  \<open>lodash.pull(array, value)\<close> removes every element equal to the value, in place.
  The part of \<open>leaveSession\<close> and of \<open>disconnect\<close> that takes the user out of the
  session, up to the assignment \<open>users[userId].sessionId = null\<close>, and the deletion of
  the session once nobody is left in it:
\<close>

definition leave :: "string \<Rightarrow> user \<Rightarrow> string \<Rightarrow> server \<Rightarrow> exn + server" where
  "leave userId u sid st =
     (case map_of (sessions st) sid of
        None \<Rightarrow> Inl TypeError
      | Some s \<Rightarrow>
          Inr (st\<lparr>sessions := AList.update sid (s\<lparr>userIds := removeAll userId (userIds s)\<rparr>) (sessions st),
                  users := (users st)(userId \<mapsto> u\<lparr>sessionId := None\<rparr>)\<rparr>))"

definition delete_if_empty :: "string \<Rightarrow> server \<Rightarrow> exn + server" where
  "delete_if_empty sid st =
     (case map_of (sessions st) sid of
        None \<Rightarrow> Inl TypeError
      | Some s \<Rightarrow>
          if length (userIds s) = 0 then Inr (st\<lparr>sessions := AList.delete sid (sessions st)\<rparr>)
          else Inr st)"

definition leaveSession :: "string \<Rightarrow> bool \<Rightarrow> server \<Rightarrow> outcome" where
  "leaveSession userId fn st =
     (case users st userId of
        None \<Rightarrow> Inl TypeError
      | Some u \<Rightarrow>
          (case sessionId u of
             None \<Rightarrow> call_fn fn (ErrorMessage ''Not in a session.'') st
           | Some sid \<Rightarrow>
               (case leave userId u sid st of
                  Inl e \<Rightarrow> Inl e
                | Inr st1 \<Rightarrow>
                    if \<not> fn then Inl TypeError
                    else
                      (case delete_if_empty sid st1 of
                         Inl e \<Rightarrow> Inl e
                       | Inr st2 \<Rightarrow> Inr (st2, [Ack LeaveReply])))))"

text \<open>
  The loop of \<open>updateSession\<close> over the members of the session:
  \<open>users[id].socket.emit('update', ...)\<close> for every \<open>id\<close> other than the caller's.
\<close>

fun send_updates :: "(string \<rightharpoonup> user) \<Rightarrow> string \<Rightarrow> message \<Rightarrow> string list \<Rightarrow> exn + effect list" where
  "send_updates us userId m [] = Inr []"
| "send_updates us userId m (i # ids) =
     (if i \<noteq> userId
      then (case us i of
              None \<Rightarrow> Inl TypeError
            | Some u \<Rightarrow>
                (case send_updates us userId m ids of
                   Inl e \<Rightarrow> Inl e
                 | Inr sent \<Rightarrow> Inr (Emit (socket u) m # sent)))
      else send_updates us userId m ids)"

definition updateSession :: "string \<Rightarrow> int \<Rightarrow> jsval \<Rightarrow> bool \<Rightarrow> server \<Rightarrow> outcome" where
  "updateSession userId now data fn st =
     (case users st userId of
        None \<Rightarrow> Inl TypeError
      | Some u \<Rightarrow>
     (case sessionId u of
        None \<Rightarrow> call_fn fn (ErrorMessage ''Not in a session.'') st
      | Some sid \<Rightarrow>
     (case properties data of
        Inl e \<Rightarrow> Inl e
      | Inr d \<Rightarrow>
     (case nonneg_integer (d ''lastKnownTime'') of
        None \<Rightarrow> call_fn fn (ErrorMessage ''Invalid lastKnownTime.'') st
      | Some time \<Rightarrow>
     (case nonneg_integer (d ''lastKnownTimeUpdatedAt'') of
        None \<Rightarrow> call_fn fn (ErrorMessage ''Invalid lastKnownTimeUpdatedAt.'') st
      | Some updatedAt \<Rightarrow>
     (case playstate_of (d ''state'') of
        None \<Rightarrow> call_fn fn (ErrorMessage ''Invalid state.'') st
      | Some ps \<Rightarrow>
     (case map_of (sessions st) sid of
        None \<Rightarrow> Inl TypeError
      | Some s \<Rightarrow>
          let s' = s\<lparr>lastActivity := Some now, lastKnownTime := time,
                     lastKnownTimeUpdatedAt := time_clip updatedAt, state := ps\<rparr>;
              st' = st\<lparr>sessions := AList.update sid s' (sessions st)\<rparr>
          in if \<not> fn then Inl TypeError
             else
               (case send_updates (users st') userId
                       (UpdateMessage (lastKnownTime s') (getTime (lastKnownTimeUpdatedAt s')) (state s'))
                       (userIds s') of
                  Inl e \<Rightarrow> Inl e
                | Inr sent \<Rightarrow> Inr (st', Ack UpdateReply # sent)))))))))"

definition ping :: "int \<Rightarrow> bool \<Rightarrow> server \<Rightarrow> outcome" where
  "ping now fn st = call_fn fn (PingReply now) st"

definition disconnect :: "string \<Rightarrow> server \<Rightarrow> outcome" where
  "disconnect userId st =
     (case users st userId of
        None \<Rightarrow> Inl TypeError
      | Some u \<Rightarrow>
          (case sessionId u of
             None \<Rightarrow> Inr (st\<lparr>users := (users st)(userId := None)\<rparr>, [])
           | Some sid \<Rightarrow>
               (case leave userId u sid st of
                  Inl e \<Rightarrow> Inl e
                | Inr st1 \<Rightarrow>
                    (case delete_if_empty sid st1 of
                       Inl e \<Rightarrow> Inl e
                     | Inr st2 \<Rightarrow> Inr (st2\<lparr>users := (users st2)(userId := None)\<rparr>, [])))))"

section \<open>Runs of the server\<close>

text \<open>
  One event is one call of a handler, at the reading \<open>now\<close> of the clock. The server
  starts from \<open>init\<close> and handles one event after the other, each to completion.
\<close>

datatype event =
    Connection string socket
  | Reboot string jsval bool
  | CreateSession string string jsval bool
  | JoinSession string jsval bool
  | LeaveSession string bool
  | UpdateSession string jsval bool
  | Ping string bool
  | Disconnect string
  | PostSessionsCreate string "(string \<times> jsval) list"
  | PostSessionsUpdate string "(string \<times> jsval) list"
  | GetSessions string
  | Vacuum

fun handle :: "int \<Rightarrow> event \<Rightarrow> server \<Rightarrow> outcome" where
  "handle now (Connection newId sock) st = connection newId sock st"
| "handle now (Reboot userId data fn) st = reboot userId now data fn st"
| "handle now (CreateSession userId newId v fn) st = createSession userId newId now v fn st"
| "handle now (JoinSession userId v fn) st = joinSession userId v fn st"
| "handle now (LeaveSession userId fn) st = leaveSession userId fn st"
| "handle now (UpdateSession userId data fn) st = updateSession userId now data fn st"
| "handle now (Ping userId fn) st = ping now fn st"
| "handle now (Disconnect userId) st = disconnect userId st"
| "handle now (PostSessionsCreate newId body) st = Inr (fst (post_sessions_create newId now body st), [])"
| "handle now (PostSessionsUpdate sid body) st = Inr (fst (post_sessions_update sid now body st), [])"
| "handle now (GetSessions sid) st = Inr (fst (get_sessions sid now st), [])"
| "handle now Vacuum st = Inr (vacuum now st, [])"

text \<open>
  What can happen in a state: a socket event of a user only comes in while that user
  is connected, and an identifier drawn by \<open>makeId()\<close> is one the server has not used.
\<close>

definition unused_id :: "string \<Rightarrow> server \<Rightarrow> bool" where
  "unused_id newId st \<longleftrightarrow>
     users st newId = None \<and> map_of (sessions st) newId = None \<and>
     list_all (\<lambda>(k, s). newId \<notin> set (userIds s)) (sessions st)"

fun possible :: "event \<Rightarrow> server \<Rightarrow> bool" where
  "possible (Connection newId sock) st = unused_id newId st"
| "possible (Reboot userId data fn) st = (users st userId \<noteq> None)"
| "possible (CreateSession userId newId v fn) st = (users st userId \<noteq> None \<and> unused_id newId st)"
| "possible (JoinSession userId v fn) st = (users st userId \<noteq> None)"
| "possible (LeaveSession userId fn) st = (users st userId \<noteq> None)"
| "possible (UpdateSession userId data fn) st = (users st userId \<noteq> None)"
| "possible (Ping userId fn) st = (users st userId \<noteq> None)"
| "possible (Disconnect userId) st = (users st userId \<noteq> None)"
| "possible (PostSessionsCreate newId body) st = unused_id newId st"
| "possible (PostSessionsUpdate sid body) st = True"
| "possible (GetSessions sid) st = True"
| "possible Vacuum st = True"

text \<open>
  \<open>run es st\<close>: \<open>None\<close> when some event of \<open>es\<close> cannot happen where it stands;
  otherwise the state after the last event, or the exception that ended the process.
\<close>

fun run :: "(int \<times> event) list \<Rightarrow> server \<Rightarrow> (exn + server) option" where
  "run [] st = Some (Inr st)"
| "run ((now, e) # es) st =
     (if \<not> possible e st then None
      else (case handle now e st of
              Inl x \<Rightarrow> Some (Inl x)
            | Inr (st', sent) \<Rightarrow> run es st'))"

text \<open>
  What the handlers keep true of the two stores: the session a user's \<open>sessionId\<close>
  names is in the store, and lists the user among its members.
\<close>

definition members_listed :: "server \<Rightarrow> bool" where
  "members_listed st \<longleftrightarrow>
     (\<forall>u r sid. users st u = Some r \<and> sessionId r = Some sid \<longrightarrow>
        (\<exists>s. map_of (sessions st) sid = Some s \<and> u \<in> set (userIds s)))"

section \<open>Example states and inputs\<close>

text \<open>
  Two users, two session identifiers, and the payloads of \<open>reboot\<close> and
  \<open>updateSession\<close> as objects.
\<close>

abbreviation userA :: string where "userA \<equiv> ''9a3078cd522cc3ff''"
abbreviation userB :: string where "userB \<equiv> ''5e1f7a90c4d2b386''"
abbreviation session1 :: string where "session1 \<equiv> ''84dba68dcea2952c''"
abbreviation session2 :: string where "session2 \<equiv> ''0c7b1e94a35d62f8''"

definition update_data :: "int \<Rightarrow> int \<Rightarrow> string \<Rightarrow> jsval" where
  "update_data t e p =
     JObject [(''lastKnownTime'', JNumber (Whole t)),
              (''lastKnownTimeUpdatedAt'', JNumber (Whole e)),
              (''state'', JString p)]"

definition reboot_data :: "string \<Rightarrow> int \<Rightarrow> int \<Rightarrow> string \<Rightarrow> int \<Rightarrow> jsval" where
  "reboot_data sid t e p v =
     JObject [(''sessionId'', JString sid),
              (''lastKnownTime'', JNumber (Whole t)),
              (''lastKnownTimeUpdatedAt'', JNumber (Whole e)),
              (''state'', JString p),
              (''videoId'', JNumber (Whole v))]"

text \<open>User A has connected and is in no session.\<close>

definition one_user :: server where
  "one_user =
     \<lparr>sessions = [],
      users = [userA \<mapsto> \<lparr>user_id = userA, sessionId = None, socket = 1\<rparr>]\<rparr>"

text \<open>User A has created session 1 for video 42 and user B has joined it.\<close>

definition party_session :: session where
  "party_session =
     \<lparr>session_id = session1, lastActivity = Some 2000, lastKnownTime = 0,
      lastKnownTimeUpdatedAt = Some 2000, state = Paused, userIds = [userA, userB],
      videoId = 42\<rparr>"

definition party :: server where
  "party =
     \<lparr>sessions = [(session1, party_session)],
      users = [userA \<mapsto> \<lparr>user_id = userA, sessionId = Some session1, socket = 1\<rparr>,
               userB \<mapsto> \<lparr>user_id = userB, sessionId = Some session1, socket = 2\<rparr>]\<rparr>"

text \<open>User A is alone in session 1.\<close>

definition solo :: server where
  "solo =
     \<lparr>sessions = [(session1, party_session\<lparr>userIds := [userA]\<rparr>)],
      users = [userA \<mapsto> \<lparr>user_id = userA, sessionId = Some session1, socket = 1\<rparr>]\<rparr>"

text \<open>User A is alone in session 1 and user B has connected.\<close>

definition lobby :: server where
  "lobby =
     \<lparr>sessions = [(session1, party_session\<lparr>userIds := [userA]\<rparr>)],
      users = [userA \<mapsto> \<lparr>user_id = userA, sessionId = Some session1, socket = 1\<rparr>,
               userB \<mapsto> \<lparr>user_id = userB, sessionId = None, socket = 2\<rparr>]\<rparr>"

text \<open>A session made through the legacy API at time 1000, which nobody is in.\<close>

definition legacy_session :: session where
  "legacy_session =
     \<lparr>session_id = session1, lastActivity = Some 1000, lastKnownTime = 0,
      lastKnownTimeUpdatedAt = Some 1000, state = Paused, userIds = [], videoId = 42\<rparr>"

definition legacy_store :: server where
  "legacy_store = \<lparr>sessions = [(session1, legacy_session)], users = Map.empty\<rparr>"

text \<open>
  User A creates session 1, user B joins it, user A creates session 2 without leaving
  session 1, and disconnects.
\<close>

definition stale_member_run :: "(int \<times> event) list" where
  "stale_member_run =
     [(1000, Connection userA 1),
      (1001, Connection userB 2),
      (2000, CreateSession userA session1 (JNumber (Whole 42)) True),
      (3000, JoinSession userB (JString session1) True),
      (4000, CreateSession userA session2 (JNumber (Whole 43)) True),
      (5000, Disconnect userA)]"

section \<open>The example states are states of the server\<close>

lemma one_user_reachable: "run [(1000, Connection userA 1)] init = Some (Inr one_user)"
  by (simp add: init_def unused_id_def connection_def one_user_def)

lemma party_reachable:
  "run [(1000, Connection userA 1),
        (1001, Connection userB 2),
        (2000, CreateSession userA session1 (JNumber (Whole 42)) True),
        (3000, JoinSession userB (JString session1) True)] init = Some (Inr party)"
  by (simp add: init_def unused_id_def connection_def createSession_def joinSession_def
      call_fn_def getTime_def party_def party_session_def)

lemma solo_reachable:
  "run [(1000, Connection userA 1),
        (2000, CreateSession userA session1 (JNumber (Whole 42)) True)] init = Some (Inr solo)"
  by (simp add: init_def unused_id_def connection_def createSession_def
      call_fn_def getTime_def solo_def party_session_def)

lemma lobby_reachable:
  "run [(1000, Connection userA 1),
        (1001, Connection userB 2),
        (2000, CreateSession userA session1 (JNumber (Whole 42)) True)] init = Some (Inr lobby)"
  by (simp add: init_def unused_id_def connection_def createSession_def
      call_fn_def getTime_def lobby_def party_session_def fun_upd_twist)

lemma legacy_store_reachable:
  "run [(1000, PostSessionsCreate session1 [(''videoId'', JNumber (Whole 42))])] init =
     Some (Inr legacy_store)"
  by (simp add: init_def unused_id_def post_sessions_create_def own_prop_def Let_def
      legacy_store_def legacy_session_def)

section \<open>The vacuum\<close>

lemma map_of_fold_delete:
  "map_of (fold AList.delete ks al) k = (if k \<in> set ks then None else map_of al k)"
  by (induction ks arbitrary: al) (auto simp: delete_conv')

lemma oldSessionIds_iff:
  "k \<in> set (oldSessionIds now ss) \<longleftrightarrow>
     (\<exists>s. map_of ss k = Some s \<and> expired now s \<and> userIds s = [])"
  by (auto simp: oldSessionIds_def split: option.splits dest: map_of_SomeD weak_map_of_SomeI
      intro: rev_image_eqI)

text \<open>
  With the clock and the stored date in the range of a \<open>Date\<close>, the test of the vacuum
  is that more than an hour has passed since the last activity.
\<close>

lemma expired_iff:
  assumes "now \<le> max_time" and "\<And>t. lastActivity s = Some t \<Longrightarrow> - max_time \<le> t"
  shows "expired now s \<longleftrightarrow> (\<exists>t. lastActivity s = Some t \<and> t + 1000 * 60 * 60 < now)"
  using assms by (auto simp: expired_def time_clip_def split: option.splits if_splits)

lemma oldSessionIds_vacuumed:
  "oldSessionIds now (fold AList.delete (oldSessionIds now ss) ss) = []"
proof -
  let ?ss' = "fold AList.delete (oldSessionIds now ss) ss"
  have "k \<notin> set (oldSessionIds now ?ss')" for k
  proof
    assume "k \<in> set (oldSessionIds now ?ss')"
    then obtain s where s: "map_of ?ss' k = Some s" "expired now s" "userIds s = []"
      by (auto simp: oldSessionIds_iff)
    from s(1) have "k \<notin> set (oldSessionIds now ss)" "map_of ss k = Some s"
      by (auto simp: map_of_fold_delete split: if_splits)
    with s(2,3) show False
      by (auto simp: oldSessionIds_iff)
  qed
  then show ?thesis
    by (cases "oldSessionIds now ?ss'") auto
qed

lemma vacuum_idem: "vacuum now (vacuum now st) = vacuum now st"
  by (simp add: vacuum_def oldSessionIds_vacuumed)

text \<open>
  C9. A sweep of the vacuum collects the ids first and deletes them afterwards
  (\<open>oldSessionIds\<close>, then \<open>fold AList.delete\<close>). With the clock reading a time value and
  every stored \<open>lastActivity\<close> in the range of a \<open>Date\<close>, the session under a key is gone
  after the sweep exactly when it was there with no member and a \<open>lastActivity\<close> more than
  one hour (3600000 ms) before \<open>now\<close>; every other session is as it was, the users are
  untouched, and a second sweep at the same instant changes nothing.
\<close>

theorem vacuum_deletes_idle_sessions:
  assumes "now \<le> max_time"
    and "\<forall>(k, s) \<in> set (sessions st). \<forall>t. lastActivity s = Some t \<longrightarrow> - max_time \<le> t"
  shows "map_of (sessions (vacuum now st)) k =
           (case map_of (sessions st) k of
              None \<Rightarrow> None
            | Some s \<Rightarrow>
                if userIds s = [] \<and> (\<exists>t. lastActivity s = Some t \<and> t + 1000 * 60 * 60 < now)
                then None else Some s)
         \<and> users (vacuum now st) = users st
         \<and> vacuum now (vacuum now st) = vacuum now st"
proof -
  have "expired now s \<longleftrightarrow> (\<exists>t. lastActivity s = Some t \<and> t + 1000 * 60 * 60 < now)"
    if "map_of (sessions st) k = Some s" for s
    using expired_iff[of now s] assms map_of_SomeD[OF that] by fastforce
  then have "map_of (sessions (vacuum now st)) k =
           (case map_of (sessions st) k of
              None \<Rightarrow> None
            | Some s \<Rightarrow>
                if userIds s = [] \<and> (\<exists>t. lastActivity s = Some t \<and> t + 1000 * 60 * 60 < now)
                then None else Some s)"
    by (auto simp: vacuum_def map_of_fold_delete oldSessionIds_iff split: option.splits)
  then show ?thesis
    by (simp add: vacuum_idem) (simp add: vacuum_def)
qed

text \<open>
  The legacy session last touched at time 1000 is deleted by a sweep at 3601001, one
  millisecond past the hour, and sweeping again deletes nothing more.
\<close>

theorem vacuum_deletes_idle_sessions_witness:
  "map_of (sessions (vacuum 3601001 legacy_store)) session1 = None
   \<and> users (vacuum 3601001 legacy_store) = users legacy_store
   \<and> vacuum 3601001 (vacuum 3601001 legacy_store) = vacuum 3601001 legacy_store"
proof -
  have clock: "(3601001::int) \<le> max_time"
    by (simp add: max_time_def)
  have dates: "\<forall>(k, s) \<in> set (sessions legacy_store). \<forall>t. lastActivity s = Some t \<longrightarrow> - max_time \<le> t"
    by (simp add: legacy_store_def legacy_session_def max_time_def)
  from vacuum_deletes_idle_sessions[OF clock dates, of session1]
  show ?thesis
    by (simp add: legacy_store_def legacy_session_def)
qed

section \<open>Every joined session is stored\<close>

text \<open>
  Each handler, when it returns, keeps \<open>members_listed\<close>; \<open>createSession\<close> and
  \<open>POST /sessions/create\<close> do so because the id they draw is not the key of a session.
  So it holds in every state the server reaches.
\<close>

lemma members_listedD:
  "members_listed st \<Longrightarrow> users st u = Some r \<Longrightarrow> sessionId r = Some sid \<Longrightarrow>
     \<exists>s. map_of (sessions st) sid = Some s \<and> u \<in> set (userIds s)"
  by (auto simp: members_listed_def)

lemma members_listedI:
  "(\<And>u r sid. users st u = Some r \<Longrightarrow> sessionId r = Some sid \<Longrightarrow>
      \<exists>s. map_of (sessions st) sid = Some s \<and> u \<in> set (userIds s)) \<Longrightarrow> members_listed st"
  by (auto simp: members_listed_def)

lemma call_fn_Inr: "call_fn fn r st = Inr (st', sent) \<longleftrightarrow> fn \<and> st' = st \<and> sent = [Ack r]"
  by (auto simp: call_fn_def)

lemma members_listed_init: "members_listed init"
  by (simp add: members_listed_def init_def)

lemma members_listed_connection:
  assumes "members_listed st" and "connection newId sock st = Inr (st', sent)"
  shows "members_listed st'"
proof (rule members_listedI)
  fix u r k
  assume "users st' u = Some r" "sessionId r = Some k"
  with assms(2) show "\<exists>s. map_of (sessions st') k = Some s \<and> u \<in> set (userIds s)"
    by (auto simp: connection_def split: if_splits dest: members_listedD[OF assms(1)])
qed

lemma members_listed_reboot_session:
  assumes "members_listed st"
    and "reboot_session userId now sid time updatedAt ps vid fn st = Inr (st', sent)"
  shows "members_listed st'"
proof (rule members_listedI)
  fix u r k
  assume "users st' u = Some r" "sessionId r = Some k"
  with assms(2) show "\<exists>s. map_of (sessions st') k = Some s \<and> u \<in> set (userIds s)"
    by (auto simp: reboot_session_def reboot_reply_def call_fn_Inr update_conv' Let_def
        split: option.splits if_splits dest: members_listedD[OF assms(1)])
qed

lemma members_listed_reboot:
  assumes "members_listed st" and "reboot userId now data fn st = Inr (st', sent)"
  shows "members_listed st'"
  using assms
  by (auto simp: reboot_def call_fn_Inr split: sum.splits option.splits
      dest: members_listed_reboot_session)

lemma members_listed_createSession:
  assumes "members_listed st" and "map_of (sessions st) newId = None"
    and "createSession userId newId now v fn st = Inr (st', sent)"
  shows "members_listed st'"
proof (rule members_listedI)
  fix u r k
  assume "users st' u = Some r" "sessionId r = Some k"
  with assms(2,3) show "\<exists>s. map_of (sessions st') k = Some s \<and> u \<in> set (userIds s)"
    by (auto simp: createSession_def call_fn_Inr update_conv' Let_def
        split: option.splits if_splits dest: members_listedD[OF assms(1)])
qed

lemma known_session_Some:
  "known_session ss v = Some (sid, s) \<longleftrightarrow> v = JString sid \<and> map_of ss sid = Some s"
  by (cases v) (auto split: option.splits)

lemma members_listed_joinSession:
  assumes "members_listed st" and "joinSession userId v fn st = Inr (st', sent)"
  shows "members_listed st'"
proof (rule members_listedI)
  fix u r k
  assume "users st' u = Some r" "sessionId r = Some k"
  with assms(2) show "\<exists>s. map_of (sessions st') k = Some s \<and> u \<in> set (userIds s)"
    by (auto simp: joinSession_def call_fn_Inr update_conv' Let_def known_session_Some
        split: option.splits if_splits)
      (fastforce dest: members_listedD[OF assms(1)])+
qed

lemma members_listed_leave:
  assumes "members_listed st" and "users st userId = Some r"
    and "leave userId r sid st = Inr st1" and "delete_if_empty sid st1 = Inr st2"
    and "users st2 u = Some q" and "u \<noteq> userId" and "sessionId q = Some k"
  shows "\<exists>s. map_of (sessions st2) k = Some s \<and> u \<in> set (userIds s)"
proof -
  from assms(3) obtain s where s: "map_of (sessions st) sid = Some s"
    "st1 = st\<lparr>sessions := AList.update sid (s\<lparr>userIds := removeAll userId (userIds s)\<rparr>) (sessions st),
              users := (users st)(userId \<mapsto> r\<lparr>sessionId := None\<rparr>)\<rparr>"
    by (auto simp: leave_def split: option.splits)
  have st2: "users st2 = (users st)(userId \<mapsto> r\<lparr>sessionId := None\<rparr>)"
    "map_of (sessions st2) =
       (if removeAll userId (userIds s) = [] then (map_of (sessions st))(sid := None)
        else (map_of (sessions st))(sid \<mapsto> s\<lparr>userIds := removeAll userId (userIds s)\<rparr>))"
    using assms(4) s by (auto simp: delete_if_empty_def update_conv' delete_conv' split: if_splits)
  from st2(1) assms(5,6) have "users st u = Some q"
    by simp
  from members_listedD[OF assms(1) this assms(7)] obtain s0
    where s0: "map_of (sessions st) k = Some s0" "u \<in> set (userIds s0)"
    by blast
  show ?thesis
  proof (cases "k = sid")
    case True
    with s0 s assms(6) have in_rest: "u \<in> set (removeAll userId (userIds s))"
      by auto
    then have "removeAll userId (userIds s) \<noteq> []"
      by (metis empty_iff empty_set)
    with True st2(2) in_rest show ?thesis
      by simp
  next
    case False
    with s0 st2(2) show ?thesis
      by auto
  qed
qed

lemma members_listed_leaveSession:
  assumes "members_listed st" and "leaveSession userId fn st = Inr (st', sent)"
  shows "members_listed st'"
proof (rule members_listedI)
  fix u q k
  assume u: "users st' u = Some q" "sessionId q = Some k"
  from assms(2) obtain r where r: "users st userId = Some r"
    by (auto simp: leaveSession_def split: option.splits)
  show "\<exists>s. map_of (sessions st') k = Some s \<and> u \<in> set (userIds s)"
  proof (cases "sessionId r")
    case None
    with r assms(2) have "st' = st"
      by (simp add: leaveSession_def call_fn_Inr)
    with u show ?thesis
      by (auto dest: members_listedD[OF assms(1)])
  next
    case (Some sid)
    with r assms(2) obtain st1 where st1: "leave userId r sid st = Inr st1"
      "delete_if_empty sid st1 = Inr st'"
      by (auto simp: leaveSession_def split: sum.splits if_splits)
    then have "users st' userId = Some (r\<lparr>sessionId := None\<rparr>)"
      by (auto simp: leave_def delete_if_empty_def split: option.splits if_splits)
    with u have "u \<noteq> userId"
      by auto
    from members_listed_leave[OF assms(1) r st1 u(1) this u(2)] show ?thesis .
  qed
qed

lemma members_listed_disconnect:
  assumes "members_listed st" and "disconnect userId st = Inr (st', sent)"
  shows "members_listed st'"
proof (rule members_listedI)
  fix u q k
  assume u: "users st' u = Some q" "sessionId q = Some k"
  from assms(2) obtain r where r: "users st userId = Some r"
    by (auto simp: disconnect_def split: option.splits)
  show "\<exists>s. map_of (sessions st') k = Some s \<and> u \<in> set (userIds s)"
  proof (cases "sessionId r")
    case None
    with r assms(2) have "st' = st\<lparr>users := (users st)(userId := None)\<rparr>"
      by (simp add: disconnect_def)
    with u show ?thesis
      by (auto split: if_splits dest: members_listedD[OF assms(1)])
  next
    case (Some sid)
    with r assms(2) obtain st1 st2 where st1: "leave userId r sid st = Inr st1"
      "delete_if_empty sid st1 = Inr st2" and st': "st' = st2\<lparr>users := (users st2)(userId := None)\<rparr>"
      by (auto simp: disconnect_def split: sum.splits)
    with u have "users st2 u = Some q" "u \<noteq> userId"
      by (auto split: if_splits)
    from members_listed_leave[OF assms(1) r st1 this u(2)] st' show ?thesis
      by simp
  qed
qed

lemma members_listed_updateSession:
  assumes "members_listed st" and "updateSession userId now data fn st = Inr (st', sent)"
  shows "members_listed st'"
proof (rule members_listedI)
  fix u r k
  assume "users st' u = Some r" "sessionId r = Some k"
  with assms(2) show "\<exists>s. map_of (sessions st') k = Some s \<and> u \<in> set (userIds s)"
    by (auto simp: updateSession_def call_fn_Inr update_conv' Let_def
        split: option.splits sum.splits if_splits)
      (fastforce dest: members_listedD[OF assms(1)])+
qed

lemma members_listed_post_sessions_create:
  assumes "members_listed st" and "map_of (sessions st) newId = None"
  shows "members_listed (fst (post_sessions_create newId now body st))"
proof (rule members_listedI)
  fix u r k
  assume "users (fst (post_sessions_create newId now body st)) u = Some r" "sessionId r = Some k"
  with assms(2)
  show "\<exists>s. map_of (sessions (fst (post_sessions_create newId now body st))) k = Some s \<and>
          u \<in> set (userIds s)"
    by (auto simp: post_sessions_create_def update_conv' Let_def
        split: option.splits if_splits dest: members_listedD[OF assms(1)])
qed

lemma members_listed_post_sessions_update:
  assumes "members_listed st"
  shows "members_listed (fst (post_sessions_update sid now body st))"
proof (rule members_listedI)
  fix u r k
  assume "users (fst (post_sessions_update sid now body st)) u = Some r" "sessionId r = Some k"
  then
  show "\<exists>s. map_of (sessions (fst (post_sessions_update sid now body st))) k = Some s \<and>
          u \<in> set (userIds s)"
    by (auto simp: post_sessions_update_def update_conv' Let_def
        split: option.splits if_splits dest: members_listedD[OF assms(1)])
qed

lemma members_listed_get_sessions:
  assumes "members_listed st"
  shows "members_listed (fst (get_sessions sid now st))"
proof (rule members_listedI)
  fix u r k
  assume "users (fst (get_sessions sid now st)) u = Some r" "sessionId r = Some k"
  then
  show "\<exists>s. map_of (sessions (fst (get_sessions sid now st))) k = Some s \<and>
          u \<in> set (userIds s)"
    by (auto simp: get_sessions_def update_conv' Let_def
        split: option.splits if_splits dest: members_listedD[OF assms(1)])
qed

lemma members_listed_vacuum:
  assumes "members_listed st"
  shows "members_listed (vacuum now st)"
proof (rule members_listedI)
  fix u r sid
  assume "users (vacuum now st) u = Some r" "sessionId r = Some sid"
  then have "users st u = Some r" "sessionId r = Some sid"
    by (simp_all add: vacuum_def)
  from members_listedD[OF assms this] obtain s
    where s: "map_of (sessions st) sid = Some s" "u \<in> set (userIds s)"
    by blast
  then have "sid \<notin> set (oldSessionIds now (sessions st))"
    by (auto simp: oldSessionIds_iff)
  with s show "\<exists>s. map_of (sessions (vacuum now st)) sid = Some s \<and> u \<in> set (userIds s)"
    by (simp add: vacuum_def map_of_fold_delete)
qed

lemma members_listed_handle:
  assumes "members_listed st" and "possible e st" and "handle now e st = Inr (st', sent)"
  shows "members_listed st'"
proof (cases e)
  case (CreateSession userId newId v fn)
  with assms show ?thesis
    by (auto simp: unused_id_def dest: members_listed_createSession)
next
  case (PostSessionsCreate newId body)
  with assms show ?thesis
    by (auto simp: unused_id_def members_listed_post_sessions_create)
qed (use assms in \<open>auto simp: ping_def call_fn_Inr members_listed_post_sessions_update
      members_listed_get_sessions members_listed_vacuum
      dest: members_listed_connection members_listed_reboot members_listed_joinSession
        members_listed_leaveSession members_listed_updateSession members_listed_disconnect\<close>)

lemma members_listed_run:
  assumes "members_listed st" and "run es st = Some (Inr st')"
  shows "members_listed st'"
  using assms
proof (induction es arbitrary: st)
  case Nil
  then show ?case by simp
next
  case (Cons a es)
  obtain now e where a: "a = (now, e)"
    by (cases a)
  with Cons.prems(2) obtain st1 sent where "possible e st" "handle now e st = Inr (st1, sent)"
    "run es st1 = Some (Inr st')"
    by (auto split: if_splits sum.splits)
  with Cons.prems(1) Cons.IH show ?case
    by (blast dest: members_listed_handle)
qed

section \<open>Validation of the arguments\<close>


lemma own_prop_Cons:
  "own_prop ((k, x) # props) name = (if name = k then x else own_prop props name)"
  by (simp add: own_prop_def)

lemma time_clip_nonneg: "0 \<le> t \<Longrightarrow> time_clip t = (if t \<le> max_time then Some t else None)"
  by (simp add: time_clip_def)

section \<open>Creating a session\<close>



section \<open>Joining a session\<close>



section \<open>Rebooting a session\<close>

text \<open>
  C2, as the code has it. For a connected caller whose event carries an acknowledgement
  callback and a payload that passes the five tests of \<open>reboot\<close>: when the session id
  is in the store, the caller is appended to the session's \<open>userIds\<close>, the caller's
  \<open>sessionId\<close> is set, nothing else of the session changes, and the acknowledgement
  carries the stored \<open>lastKnownTime\<close>, \<open>lastKnownTimeUpdatedAt\<close> and \<open>state\<close>, whatever
  the payload offered; when it is not, a session is stored under that id with the
  caller as its only member and the payload's \<open>lastKnownTime\<close>, \<open>state\<close> and
  \<open>videoId\<close>, and with \<open>new Date(lastKnownTimeUpdatedAt)\<close>, which holds the payload's
  value when that is at most 8640000000000000 and is an invalid date beyond.
\<close>

theorem reboot_resumes_or_creates:
  assumes "users st userId = Some u" and "fn"
    and "properties data = Inr d"
    and "d ''sessionId'' = JString sid" and "length sid = 16"
    and "d ''lastKnownTime'' = JNumber (Whole time)" and "0 \<le> time"
    and "d ''lastKnownTimeUpdatedAt'' = JNumber (Whole updatedAt)" and "0 \<le> updatedAt"
    and "playstate_of (d ''state'') = Some ps"
    and "d ''videoId'' = JNumber (Whole vid)" and "0 \<le> vid"
  shows "reboot userId now data fn st =
     (case map_of (sessions st) sid of
        Some s \<Rightarrow>
          Inr (st\<lparr>sessions := AList.update sid (s\<lparr>userIds := userIds s @ [userId]\<rparr>) (sessions st),
                  users := (users st)(userId \<mapsto> u\<lparr>sessionId := Some sid\<rparr>)\<rparr>,
               [Ack (RebootReply (lastKnownTime s) (getTime (lastKnownTimeUpdatedAt s)) (state s))])
      | None \<Rightarrow>
          Inr (st\<lparr>sessions := AList.update sid
                      \<lparr>session_id = sid, lastActivity = Some now, lastKnownTime = time,
                       lastKnownTimeUpdatedAt = (if updatedAt \<le> max_time then Some updatedAt else None),
                       state = ps, userIds = [userId], videoId = vid\<rparr> (sessions st),
                  users := (users st)(userId \<mapsto> u\<lparr>sessionId := Some sid\<rparr>)\<rparr>,
               [Ack (RebootReply time (if updatedAt \<le> max_time then Whole updatedAt else NotWhole) ps)]))"
  using assms
  by (simp add: reboot_def reboot_session_def reboot_reply_def call_fn_def update_conv'
      getTime_def time_clip_nonneg split: option.splits)

text \<open>
  User A, connected, reboots session 1, which the store does not have, with time 7,
  epoch 1500, playing, video 42: the session is created from these. In the state
  \<open>lobby\<close>, where session 1 exists, user B reboots it offering the same: user B is
  added to it and is answered with the stored time 0, epoch 2000 and paused.
\<close>

theorem reboot_resumes_or_creates_witness:
  "reboot userA 2000 (reboot_data session1 7 1500 ''playing'' 42) True one_user =
     Inr (\<lparr>sessions = [(session1,
               \<lparr>session_id = session1, lastActivity = Some 2000, lastKnownTime = 7,
                lastKnownTimeUpdatedAt = Some 1500, state = Playing, userIds = [userA],
                videoId = 42\<rparr>)],
           users = users solo\<rparr>,
          [Ack (RebootReply 7 (Whole 1500) Playing)])
   \<and> reboot userB 3000 (reboot_data session1 7 1500 ''playing'' 42) True lobby =
     Inr (party\<lparr>sessions := [(session1, party_session\<lparr>userIds := [userA, userB]\<rparr>)]\<rparr>,
          [Ack (RebootReply 0 (Whole 2000) Paused)])"
proof -
  have a: "users one_user userA = Some \<lparr>user_id = userA, sessionId = None, socket = 1\<rparr>"
    by (simp add: one_user_def)
  have b: "users lobby userB = Some \<lparr>user_id = userB, sessionId = None, socket = 2\<rparr>"
    by (simp add: lobby_def)
  have d: "properties (reboot_data session1 7 1500 ''playing'' 42) =
             Inr (own_prop [(''sessionId'', JString session1),
                            (''lastKnownTime'', JNumber (Whole 7)),
                            (''lastKnownTimeUpdatedAt'', JNumber (Whole 1500)),
                            (''state'', JString ''playing''),
                            (''videoId'', JNumber (Whole 42))])"
    by (simp add: reboot_data_def)
  have r: "reboot userId now (reboot_data session1 7 1500 ''playing'' 42) True st =
     (case map_of (sessions st) session1 of
        Some s \<Rightarrow>
          Inr (st\<lparr>sessions := AList.update session1 (s\<lparr>userIds := userIds s @ [userId]\<rparr>) (sessions st),
                  users := (users st)(userId \<mapsto> u\<lparr>sessionId := Some session1\<rparr>)\<rparr>,
               [Ack (RebootReply (lastKnownTime s) (getTime (lastKnownTimeUpdatedAt s)) (state s))])
      | None \<Rightarrow>
          Inr (st\<lparr>sessions := AList.update session1
                      \<lparr>session_id = session1, lastActivity = Some now, lastKnownTime = 7,
                       lastKnownTimeUpdatedAt = (if (1500::int) \<le> max_time then Some 1500 else None),
                       state = Playing, userIds = [userId], videoId = 42\<rparr> (sessions st),
                  users := (users st)(userId \<mapsto> u\<lparr>sessionId := Some session1\<rparr>)\<rparr>,
               [Ack (RebootReply 7 (if (1500::int) \<le> max_time then Whole 1500 else NotWhole) Playing)]))"
    if "users st userId = Some u" for st userId u now
    by (rule reboot_resumes_or_creates[OF that _ d]) (simp_all add: own_prop_def)
  show ?thesis
    by (simp add: r[OF a] r[OF b] max_time_def)
      (simp add: one_user_def lobby_def solo_def party_def party_session_def getTime_def)
qed

text \<open>
  The epoch 8640000000000001 is a non-negative integer, one millisecond past the last
  time value of a \<open>Date\<close>. User A reboots the unknown session 1 with it: the session is
  created with an invalid date, and the acknowledgement carries \<open>NaN\<close>, not the epoch
  the caller supplied.
\<close>

theorem reboot_epoch_beyond_dates_counterexample:
  "reboot userA 2000 (reboot_data session1 7 8640000000000001 ''playing'' 42) True one_user =
     Inr (\<lparr>sessions = [(session1,
               \<lparr>session_id = session1, lastActivity = Some 2000, lastKnownTime = 7,
                lastKnownTimeUpdatedAt = None, state = Playing, userIds = [userA],
                videoId = 42\<rparr>)],
           users = users solo\<rparr>,
          [Ack (RebootReply 7 NotWhole Playing)])
   \<and> reboot userA 2000 (reboot_data session1 7 8640000000000001 ''playing'' 42) True one_user \<noteq>
     Inr (\<lparr>sessions = [(session1,
               \<lparr>session_id = session1, lastActivity = Some 2000, lastKnownTime = 7,
                lastKnownTimeUpdatedAt = Some 8640000000000001, state = Playing,
                userIds = [userA], videoId = 42\<rparr>)],
           users = users solo\<rparr>,
          [Ack (RebootReply 7 (Whole 8640000000000001) Playing)])"
  by (simp add: reboot_def reboot_session_def reboot_reply_def reboot_data_def own_prop_def
      call_fn_def getTime_def time_clip_def max_time_def one_user_def solo_def)

section \<open>Updating a session\<close>

text \<open>
  When every listed member other than the caller is in the registry, the loop sends
  one message per entry of the list that is not the caller, in the order of the list,
  each on the socket of the user the entry names.
\<close>

lemma send_updates_registered:
  assumes "\<forall>i \<in> set ids. i \<noteq> userId \<longrightarrow> us i \<noteq> None"
  shows "\<exists>sent. send_updates us userId m ids = Inr sent \<and>
           list_all2 (\<lambda>i e. \<exists>r. us i = Some r \<and> e = Emit (socket r) m)
             (filter (\<lambda>i. i \<noteq> userId) ids) sent"
  using assms by (induction ids) auto

text \<open>
  C1, as the code has it. Take a caller whose \<open>sessionId\<close> names a stored session, an
  acknowledgement callback, a payload that passes the three tests of \<open>updateSession\<close>
  with a \<open>lastKnownTimeUpdatedAt\<close> of at most 8640000000000000, and a member list
  that names nobody twice and, apart from the caller, only users of the registry.
  Then \<open>updateSession\<close> overwrites the session's \<open>lastKnownTime\<close>,
  \<open>lastKnownTimeUpdatedAt\<close> and \<open>state\<close> with the payload's values (and
  \<open>lastActivity\<close> with \<open>now\<close>), acknowledges, and sends the update messages, which
  stand one to one with the members other than the caller: each goes to the socket of
  its member and carries the three values of the payload. No entry of that list is
  the caller, and none occurs twice.
\<close>

theorem updateSession_overwrites_and_notifies_others:
  assumes "users st userId = Some u" and "sessionId u = Some sid"
    and "map_of (sessions st) sid = Some s" and "fn"
    and "properties data = Inr d"
    and "d ''lastKnownTime'' = JNumber (Whole time)" and "0 \<le> time"
    and "d ''lastKnownTimeUpdatedAt'' = JNumber (Whole updatedAt)" and "0 \<le> updatedAt"
    and "updatedAt \<le> max_time"
    and "playstate_of (d ''state'') = Some ps"
    and "distinct (userIds s)"
    and "\<forall>i \<in> set (userIds s). i \<noteq> userId \<longrightarrow> users st i \<noteq> None"
  shows "\<exists>sent. updateSession userId now data fn st =
             Inr (st\<lparr>sessions := AList.update sid
                         (s\<lparr>lastActivity := Some now, lastKnownTime := time,
                            lastKnownTimeUpdatedAt := Some updatedAt, state := ps\<rparr>) (sessions st)\<rparr>,
                  Ack UpdateReply # sent)
           \<and> list_all2 (\<lambda>i e. \<exists>r. users st i = Some r \<and>
                                  e = Emit (socket r) (UpdateMessage time (Whole updatedAt) ps))
               (filter (\<lambda>i. i \<noteq> userId) (userIds s)) sent
           \<and> distinct (filter (\<lambda>i. i \<noteq> userId) (userIds s))
           \<and> set (filter (\<lambda>i. i \<noteq> userId) (userIds s)) = set (userIds s) - {userId}"
proof -
  obtain sent where sent:
    "send_updates (users st) userId (UpdateMessage time (Whole updatedAt) ps) (userIds s) = Inr sent"
    "list_all2 (\<lambda>i e. \<exists>r. users st i = Some r \<and>
                  e = Emit (socket r) (UpdateMessage time (Whole updatedAt) ps))
       (filter (\<lambda>i. i \<noteq> userId) (userIds s)) sent"
    using send_updates_registered[OF assms(13)] by blast
  have "updateSession userId now data fn st =
          Inr (st\<lparr>sessions := AList.update sid
                      (s\<lparr>lastActivity := Some now, lastKnownTime := time,
                         lastKnownTimeUpdatedAt := Some updatedAt, state := ps\<rparr>) (sessions st)\<rparr>,
               Ack UpdateReply # sent)"
    using assms(1-11) sent(1)
    by (simp add: updateSession_def getTime_def time_clip_nonneg)
  with sent(2) assms(12) show ?thesis
    by auto
qed

text \<open>
  In the state \<open>party\<close>, user A reports time 10 at epoch 6000, playing: the session
  takes the three values, user A is acknowledged, and the one message goes to the
  socket of user B.
\<close>

theorem updateSession_overwrites_and_notifies_others_witness:
  "updateSession userA 6001 (update_data 10 6000 ''playing'') True party =
     Inr (party\<lparr>sessions := [(session1,
                   party_session\<lparr>lastActivity := Some 6001, lastKnownTime := 10,
                                 lastKnownTimeUpdatedAt := Some 6000, state := Playing\<rparr>)]\<rparr>,
          [Ack UpdateReply, Emit 2 (UpdateMessage 10 (Whole 6000) Playing)])"
proof -
  have u: "users party userA = Some \<lparr>user_id = userA, sessionId = Some session1, socket = 1\<rparr>"
    by (simp add: party_def)
  have s: "map_of (sessions party) session1 = Some party_session"
    by (simp add: party_def)
  have d: "properties (update_data 10 6000 ''playing'') =
             Inr (own_prop [(''lastKnownTime'', JNumber (Whole 10)),
                            (''lastKnownTimeUpdatedAt'', JNumber (Whole 6000)),
                            (''state'', JString ''playing'')])"
    by (simp add: update_data_def)
  have "\<exists>sent. updateSession userA 6001 (update_data 10 6000 ''playing'') True party =
             Inr (party\<lparr>sessions := AList.update session1
                         (party_session\<lparr>lastActivity := Some 6001, lastKnownTime := 10,
                            lastKnownTimeUpdatedAt := Some 6000, state := Playing\<rparr>) (sessions party)\<rparr>,
                  Ack UpdateReply # sent)
           \<and> list_all2 (\<lambda>i e. \<exists>r. users party i = Some r \<and>
                                  e = Emit (socket r) (UpdateMessage 10 (Whole 6000) Playing))
               (filter (\<lambda>i. i \<noteq> userA) (userIds party_session)) sent
           \<and> distinct (filter (\<lambda>i. i \<noteq> userA) (userIds party_session))
           \<and> set (filter (\<lambda>i. i \<noteq> userA) (userIds party_session)) = set (userIds party_session) - {userA}"
    by (rule updateSession_overwrites_and_notifies_others[OF u _ s _ d])
      (simp_all add: own_prop_def max_time_def party_session_def party_def)
  then obtain sent where sent:
    "updateSession userA 6001 (update_data 10 6000 ''playing'') True party =
       Inr (party\<lparr>sessions := AList.update session1
                   (party_session\<lparr>lastActivity := Some 6001, lastKnownTime := 10,
                      lastKnownTimeUpdatedAt := Some 6000, state := Playing\<rparr>) (sessions party)\<rparr>,
            Ack UpdateReply # sent)"
    "list_all2 (\<lambda>i e. \<exists>r. users party i = Some r \<and>
                            e = Emit (socket r) (UpdateMessage 10 (Whole 6000) Playing))
       (filter (\<lambda>i. i \<noteq> userA) (userIds party_session)) sent"
    by blast
  from sent(2) have "sent = [Emit 2 (UpdateMessage 10 (Whole 6000) Playing)]"
    by (simp add: party_session_def party_def list_all2_Cons1)
  with sent(1) show ?thesis
    by (simp add: party_def)
qed

text \<open>
  The epoch 8640000000000001 is a non-negative integer, one millisecond past the last
  time value of a \<open>Date\<close>. In the state \<open>party\<close>, user A reports it: the session ends
  with an invalid date, and the message to user B carries \<open>NaN\<close>, not the epoch the
  caller supplied.
\<close>

theorem updateSession_epoch_beyond_dates_counterexample:
  "updateSession userA 6001 (update_data 10 8640000000000001 ''playing'') True party =
     Inr (party\<lparr>sessions := [(session1,
                   party_session\<lparr>lastActivity := Some 6001, lastKnownTime := 10,
                                 lastKnownTimeUpdatedAt := None, state := Playing\<rparr>)]\<rparr>,
          [Ack UpdateReply, Emit 2 (UpdateMessage 10 NotWhole Playing)])
   \<and> updateSession userA 6001 (update_data 10 8640000000000001 ''playing'') True party \<noteq>
     Inr (party\<lparr>sessions := [(session1,
                   party_session\<lparr>lastActivity := Some 6001, lastKnownTime := 10,
                                 lastKnownTimeUpdatedAt := Some 8640000000000001, state := Playing\<rparr>)]\<rparr>,
          [Ack UpdateReply, Emit 2 (UpdateMessage 10 (Whole 8640000000000001) Playing)])"
  by (simp add: updateSession_def update_data_def own_prop_def getTime_def time_clip_def
      max_time_def party_def party_session_def)

section \<open>Leaving a session and disconnecting\<close>

lemma leave_result:
  assumes "map_of (sessions st) sid = Some s"
  shows "leave userId u sid st =
           Inr (st\<lparr>sessions := AList.update sid (s\<lparr>userIds := removeAll userId (userIds s)\<rparr>) (sessions st),
                   users := (users st)(userId \<mapsto> u\<lparr>sessionId := None\<rparr>)\<rparr>)"
  using assms by (simp add: leave_def)

lemma delete_if_empty_after_leave:
  assumes "map_of (sessions st) sid = Some s" and "leave userId u sid st = Inr st1"
  shows "\<exists>st2. delete_if_empty sid st1 = Inr st2 \<and> users st2 = users st1 \<and>
           map_of (sessions st2) sid =
             (if removeAll userId (userIds s) = [] then None
              else Some (s\<lparr>userIds := removeAll userId (userIds s)\<rparr>)) \<and>
           (\<forall>k. k \<noteq> sid \<longrightarrow> map_of (sessions st2) k = map_of (sessions st) k)"
  using assms
  by (auto simp: leave_def delete_if_empty_def update_conv' delete_conv')

lemma joinSession_unknown:
  "map_of (sessions st) sid = None \<Longrightarrow>
     joinSession other (JString sid) True st = Inr (st, [Ack (ErrorMessage ''Invalid session ID.'')])"
  by (simp add: joinSession_def call_fn_def)

text \<open>
  What \<open>leaveSession\<close> and \<open>disconnect\<close> do for a user whose session is in the store.
\<close>

lemma leaving_a_stored_session:
  assumes "users st userId = Some u" and "sessionId u = Some sid"
    and "map_of (sessions st) sid = Some s"
  shows "\<exists>st1 st2.
           leaveSession userId True st = Inr (st1, [Ack LeaveReply]) \<and>
           disconnect userId st = Inr (st2, []) \<and>
           (\<forall>st' \<in> {st1, st2}.
              (removeAll userId (userIds s) = [] \<longrightarrow>
                 map_of (sessions st') sid = None \<and>
                 (\<forall>other. joinSession other (JString sid) True st' =
                    Inr (st', [Ack (ErrorMessage ''Invalid session ID.'')]))) \<and>
              (removeAll userId (userIds s) \<noteq> [] \<longrightarrow>
                 map_of (sessions st') sid = Some (s\<lparr>userIds := removeAll userId (userIds s)\<rparr>)) \<and>
              (\<forall>k. k \<noteq> sid \<longrightarrow> map_of (sessions st') k = map_of (sessions st) k) \<and>
              (\<forall>k s'. map_of (sessions st') k = Some s' \<longrightarrow> 0 \<le> int (length (userIds s'))))"
proof -
  obtain st1 where st1: "leave userId u sid st = Inr st1"
    using leave_result[OF assms(3)] by blast
  obtain st2 where st2: "delete_if_empty sid st1 = Inr st2" "users st2 = users st1"
    "map_of (sessions st2) sid =
       (if removeAll userId (userIds s) = [] then None
        else Some (s\<lparr>userIds := removeAll userId (userIds s)\<rparr>))"
    "\<forall>k. k \<noteq> sid \<longrightarrow> map_of (sessions st2) k = map_of (sessions st) k"
    using delete_if_empty_after_leave[OF assms(3) st1] by blast
  let ?st3 = "st2\<lparr>users := (users st2)(userId := None)\<rparr>"
  have l: "leaveSession userId True st = Inr (st2, [Ack LeaveReply])"
    using assms(1,2) st1 st2(1) by (simp add: leaveSession_def)
  have d: "disconnect userId st = Inr (?st3, [])"
    using assms(1,2) st1 st2(1) by (simp add: disconnect_def)
  have "map_of (sessions st') sid = None \<Longrightarrow>
          joinSession other (JString sid) True st' =
            Inr (st', [Ack (ErrorMessage ''Invalid session ID.'')])" for st' other
    by (rule joinSession_unknown)
  with l d st2(3,4) show ?thesis
    by (intro exI[of _ st2] exI[of _ ?st3]) simp
qed

text \<open>
  C4. In every state the server reaches, take a connected user whose \<open>sessionId\<close> is
  set. The session it names is in the store and lists the user, and \<open>leaveSession\<close>
  (with an acknowledgement callback) and \<open>disconnect\<close> both return. In the state either
  of them returns: when taking the user out leaves the member list empty, the session
  is no longer in the store, and a \<open>joinSession\<close> with its id by anyone is refused with
  \<open>Invalid session ID.\<close>; when somebody is left, the session stays, with the user taken
  out of its members; every other session is as it was; and the number of members of
  every session is at least 0.
\<close>

theorem last_member_leaving_deletes_session:
  assumes "run es init = Some (Inr st)"
    and "users st userId = Some u" and "sessionId u = Some sid"
  shows "\<exists>s st1 st2.
           map_of (sessions st) sid = Some s \<and> userId \<in> set (userIds s) \<and>
           leaveSession userId True st = Inr (st1, [Ack LeaveReply]) \<and>
           disconnect userId st = Inr (st2, []) \<and>
           (\<forall>st' \<in> {st1, st2}.
              (removeAll userId (userIds s) = [] \<longrightarrow>
                 map_of (sessions st') sid = None \<and>
                 (\<forall>other. joinSession other (JString sid) True st' =
                    Inr (st', [Ack (ErrorMessage ''Invalid session ID.'')]))) \<and>
              (removeAll userId (userIds s) \<noteq> [] \<longrightarrow>
                 map_of (sessions st') sid = Some (s\<lparr>userIds := removeAll userId (userIds s)\<rparr>)) \<and>
              (\<forall>k. k \<noteq> sid \<longrightarrow> map_of (sessions st') k = map_of (sessions st) k) \<and>
              (\<forall>k s'. map_of (sessions st') k = Some s' \<longrightarrow> 0 \<le> int (length (userIds s'))))"
proof -
  have "members_listed st"
    using members_listed_init assms(1) by (rule members_listed_run)
  from members_listedD[OF this assms(2,3)] obtain s
    where s: "map_of (sessions st) sid = Some s" "userId \<in> set (userIds s)"
    by blast
  from leaving_a_stored_session[OF assms(2,3) s(1)] s show ?thesis
    by blast
qed

text \<open>
  User A connects and creates session 1, which gives the state \<open>solo\<close>. When user A
  leaves, the store is empty (the state is \<open>one_user\<close>); when user A disconnects
  instead, the store and the registry are empty; and user B is then refused session 1.
\<close>

theorem last_member_leaving_deletes_session_witness:
  "leaveSession userA True solo = Inr (one_user, [Ack LeaveReply])
   \<and> disconnect userA solo = Inr (init, [])
   \<and> joinSession userB (JString session1) True one_user =
       Inr (one_user, [Ack (ErrorMessage ''Invalid session ID.'')])"
proof -
  have u: "users solo userA = Some \<lparr>user_id = userA, sessionId = Some session1, socket = 1\<rparr>"
    by (simp add: solo_def)
  from last_member_leaving_deletes_session[OF solo_reachable u]
  show ?thesis
    by (simp add: solo_def one_user_def init_def leaveSession_def disconnect_def leave_def
        delete_if_empty_def joinSession_def call_fn_def party_session_def)
qed

section \<open>The legacy API\<close>

text \<open>
  C10, as the code has it. A \<open>POST /sessions/:id/update\<close> for a stored session, with a
  body whose \<open>lastKnownTime\<close> is a non-negative integer and whose \<open>state\<close> is
  \<open>playing\<close> or \<open>paused\<close>, sets \<open>lastKnownTimeUpdatedAt\<close> and \<open>lastActivity\<close> of the
  session to \<open>now\<close>, the reading of the server's clock, and a \<open>lastKnownTimeUpdatedAt\<close>
  in the body makes no difference to the outcome. The live path differs: take a
  connected user whose \<open>sessionId\<close> names that session, every other listed member of
  which is in the registry, and let the same body, with a non-negative integer
  \<open>lastKnownTimeUpdatedAt\<close> in it, be the payload of that user's \<open>updateSession\<close>.
  Then \<open>updateSession\<close> returns, and it has stored in \<open>lastKnownTimeUpdatedAt\<close> the date
  made from the payload's value, whatever the clock reads: that value itself when it
  is at most 8640000000000000, and an invalid date beyond.
\<close>

theorem post_sessions_update_stamps_server_clock:
  assumes "map_of (sessions st) sid = Some s"
    and "own_prop body ''lastKnownTime'' = JNumber (Whole time)" and "0 \<le> time"
    and "playstate_of (own_prop body ''state'') = Some ps"
  shows "post_sessions_update sid now body st =
           (st\<lparr>sessions := AList.update sid
                   (s\<lparr>lastActivity := Some now, lastKnownTime := time,
                      lastKnownTimeUpdatedAt := Some now, state := ps\<rparr>) (sessions st)\<rparr>,
            Json (s\<lparr>lastActivity := Some now, lastKnownTime := time,
                     lastKnownTimeUpdatedAt := Some now, state := ps\<rparr>))
       \<and> post_sessions_update sid now ((''lastKnownTimeUpdatedAt'', x) # body) st =
           post_sessions_update sid now body st
       \<and> (\<forall>userId u e.
            users st userId = Some u \<and> sessionId u = Some sid \<and>
            own_prop body ''lastKnownTimeUpdatedAt'' = JNumber (Whole e) \<and> 0 \<le> e \<and>
            (\<forall>i \<in> set (userIds s). i \<noteq> userId \<longrightarrow> users st i \<noteq> None) \<longrightarrow>
            (\<exists>sent. updateSession userId now (JObject body) True st =
               Inr (st\<lparr>sessions := AList.update sid
                         (s\<lparr>lastActivity := Some now, lastKnownTime := time,
                            lastKnownTimeUpdatedAt := (if e \<le> max_time then Some e else None),
                            state := ps\<rparr>) (sessions st)\<rparr>,
                    Ack UpdateReply # sent)))"
proof -
  have "playstate_of JUndefined = None"
    by simp
  with assms(4) have "own_prop body ''state'' \<noteq> JUndefined"
    by auto
  with assms have 1: "post_sessions_update sid now body st =
           (st\<lparr>sessions := AList.update sid
                   (s\<lparr>lastActivity := Some now, lastKnownTime := time,
                      lastKnownTimeUpdatedAt := Some now, state := ps\<rparr>) (sessions st)\<rparr>,
            Json (s\<lparr>lastActivity := Some now, lastKnownTime := time,
                     lastKnownTimeUpdatedAt := Some now, state := ps\<rparr>))"
    by (simp add: post_sessions_update_def Let_def)
  have same: "own_prop ((''lastKnownTimeUpdatedAt'', x) # body) ''lastKnownTime'' =
          own_prop body ''lastKnownTime''"
    "own_prop ((''lastKnownTimeUpdatedAt'', x) # body) ''state'' = own_prop body ''state''"
    by (simp_all add: own_prop_Cons)
  have 2: "post_sessions_update sid now ((''lastKnownTimeUpdatedAt'', x) # body) st =
           post_sessions_update sid now body st"
    unfolding post_sessions_update_def same by (rule refl)
  have 3: "\<exists>sent. updateSession userId now (JObject body) True st =
               Inr (st\<lparr>sessions := AList.update sid
                         (s\<lparr>lastActivity := Some now, lastKnownTime := time,
                            lastKnownTimeUpdatedAt := (if e \<le> max_time then Some e else None),
                            state := ps\<rparr>) (sessions st)\<rparr>,
                    Ack UpdateReply # sent)"
    if u: "users st userId = Some u" "sessionId u = Some sid"
      and e: "own_prop body ''lastKnownTimeUpdatedAt'' = JNumber (Whole e)" "0 \<le> e"
      and others: "\<forall>i \<in> set (userIds s). i \<noteq> userId \<longrightarrow> users st i \<noteq> None"
    for userId u e
  proof -
    obtain sent where
      "send_updates (users st) userId
         (UpdateMessage time (getTime (if e \<le> max_time then Some e else None)) ps)
         (userIds s) = Inr sent"
      using send_updates_registered[OF others] by blast
    with u e assms show ?thesis
      by (simp add: updateSession_def time_clip_nonneg)
  qed
  from 1 2 3 show ?thesis
    by blast
qed

text \<open>
  In the state \<open>solo\<close>, session 1 is updated at time 9000 with time 10, playing, and
  a \<open>lastKnownTimeUpdatedAt\<close> of 5 in the body. Through the legacy API both dates of
  the session become 9000; through \<open>updateSession\<close> of user A, its only member,
  \<open>lastKnownTimeUpdatedAt\<close> becomes 5.
\<close>

theorem post_sessions_update_stamps_server_clock_witness:
  "post_sessions_update session1 9000
     [(''lastKnownTimeUpdatedAt'', JNumber (Whole 5)),
      (''lastKnownTime'', JNumber (Whole 10)), (''state'', JString ''playing'')] solo =
     (solo\<lparr>sessions := [(session1,
        party_session\<lparr>userIds := [userA], lastActivity := Some 9000, lastKnownTime := 10,
                      lastKnownTimeUpdatedAt := Some 9000, state := Playing\<rparr>)]\<rparr>,
      Json (party_session\<lparr>userIds := [userA], lastActivity := Some 9000, lastKnownTime := 10,
                          lastKnownTimeUpdatedAt := Some 9000, state := Playing\<rparr>))
   \<and> updateSession userA 9000
       (JObject [(''lastKnownTimeUpdatedAt'', JNumber (Whole 5)),
                 (''lastKnownTime'', JNumber (Whole 10)), (''state'', JString ''playing'')])
       True solo =
     Inr (solo\<lparr>sessions := [(session1,
            party_session\<lparr>userIds := [userA], lastActivity := Some 9000, lastKnownTime := 10,
                          lastKnownTimeUpdatedAt := Some 5, state := Playing\<rparr>)]\<rparr>,
          [Ack UpdateReply])"
proof -
  let ?body = "[(''lastKnownTimeUpdatedAt'', JNumber (Whole 5)),
                (''lastKnownTime'', JNumber (Whole 10)), (''state'', JString ''playing'')]"
  have s: "map_of (sessions solo) session1 = Some (party_session\<lparr>userIds := [userA]\<rparr>)"
    by (simp add: solo_def)
  have t: "own_prop ?body ''lastKnownTime'' = JNumber (Whole 10)"
    and p: "playstate_of (own_prop ?body ''state'') = Some Playing"
    and e: "own_prop ?body ''lastKnownTimeUpdatedAt'' = JNumber (Whole 5)"
    by (simp_all add: own_prop_def)
  have u: "users solo userA = Some \<lparr>user_id = userA, sessionId = Some session1, socket = 1\<rparr>"
    by (simp add: solo_def)
  note both = post_sessions_update_stamps_server_clock[OF s t _ p, where now = 9000]
  from both have legacy: "post_sessions_update session1 9000 ?body solo =
     (solo\<lparr>sessions := AList.update session1
              (party_session\<lparr>userIds := [userA], lastActivity := Some 9000, lastKnownTime := 10,
                            lastKnownTimeUpdatedAt := Some 9000, state := Playing\<rparr>)
              (sessions solo)\<rparr>,
      Json (party_session\<lparr>userIds := [userA], lastActivity := Some 9000, lastKnownTime := 10,
                          lastKnownTimeUpdatedAt := Some 9000, state := Playing\<rparr>))"
    by simp
  from both u e obtain sent where live: "updateSession userA 9000 (JObject ?body) True solo =
     Inr (solo\<lparr>sessions := AList.update session1
              (party_session\<lparr>userIds := [userA], lastActivity := Some 9000, lastKnownTime := 10,
                            lastKnownTimeUpdatedAt := Some 5, state := Playing\<rparr>)
              (sessions solo)\<rparr>,
          Ack UpdateReply # sent)"
    by (fastforce simp: max_time_def)
  have "send_updates (users solo) userA m (userIds (party_session\<lparr>userIds := [userA]\<rparr>)) = Inr []"
    for m
    by simp
  with live u s e t p have "sent = []"
    by (simp add: updateSession_def time_clip_def max_time_def)
  with legacy live show ?thesis
    by (simp add: solo_def)
qed

text \<open>
  The epoch 9000000000000000 is a non-negative integer past the last time value of a
  \<open>Date\<close>. In the state \<open>solo\<close>, user A sends it in an \<open>updateSession\<close> at time 9000:
  the session ends with an invalid date, not with the caller's timestamp. The same body
  posted to the legacy endpoint gives the session the date 9000.
\<close>

theorem updateSession_stores_clipped_date_counterexample:
  "updateSession userA 9000 (update_data 10 9000000000000000 ''playing'') True solo =
     Inr (solo\<lparr>sessions := [(session1,
            party_session\<lparr>userIds := [userA], lastActivity := Some 9000, lastKnownTime := 10,
                          lastKnownTimeUpdatedAt := None, state := Playing\<rparr>)]\<rparr>,
          [Ack UpdateReply])
   \<and> updateSession userA 9000 (update_data 10 9000000000000000 ''playing'') True solo \<noteq>
     Inr (solo\<lparr>sessions := [(session1,
            party_session\<lparr>userIds := [userA], lastActivity := Some 9000, lastKnownTime := 10,
                          lastKnownTimeUpdatedAt := Some 9000000000000000, state := Playing\<rparr>)]\<rparr>,
          [Ack UpdateReply])
   \<and> post_sessions_update session1 9000
       [(''lastKnownTime'', JNumber (Whole 10)),
        (''lastKnownTimeUpdatedAt'', JNumber (Whole 9000000000000000)),
        (''state'', JString ''playing'')] solo =
     (solo\<lparr>sessions := [(session1,
        party_session\<lparr>userIds := [userA], lastActivity := Some 9000, lastKnownTime := 10,
                      lastKnownTimeUpdatedAt := Some 9000, state := Playing\<rparr>)]\<rparr>,
      Json (party_session\<lparr>userIds := [userA], lastActivity := Some 9000, lastKnownTime := 10,
                          lastKnownTimeUpdatedAt := Some 9000, state := Playing\<rparr>))"
  by (simp add: updateSession_def update_data_def post_sessions_update_def own_prop_def Let_def
      getTime_def time_clip_def max_time_def solo_def party_session_def)

section \<open>A refused call changes nothing\<close>

text \<open>
  Every test of a handler comes before its first assignment: a call that is answered
  with an error message, or a request answered with an error status, leaves the
  stores as they were.
\<close>

lemma send_updates_only_emits:
  "send_updates us userId m ids = Inr sent \<Longrightarrow> Ack r \<notin> set sent"
  by (induction ids arbitrary: sent) (auto split: if_splits option.splits sum.splits)

lemma reboot_rejected:
  assumes "reboot userId now data fn st = Inr (st', sent)" and "Ack (ErrorMessage m) \<in> set sent"
  shows "st' = st"
  using assms
  by (auto simp: reboot_def reboot_session_def reboot_reply_def call_fn_Inr Let_def
      split: sum.splits option.splits)

lemma createSession_rejected:
  assumes "createSession userId newId now v fn st = Inr (st', sent)"
    and "Ack (ErrorMessage m) \<in> set sent"
  shows "st' = st"
  using assms
  by (auto simp: createSession_def call_fn_Inr Let_def split: option.splits)

lemma joinSession_rejected:
  assumes "joinSession userId v fn st = Inr (st', sent)" and "Ack (ErrorMessage m) \<in> set sent"
  shows "st' = st"
  using assms
  by (auto simp: joinSession_def call_fn_Inr Let_def split: option.splits if_splits)

lemma leaveSession_rejected:
  assumes "leaveSession userId fn st = Inr (st', sent)" and "Ack (ErrorMessage m) \<in> set sent"
  shows "st' = st"
  using assms
  by (auto simp: leaveSession_def call_fn_Inr split: option.splits sum.splits if_splits)

lemma updateSession_rejected:
  assumes "updateSession userId now data fn st = Inr (st', sent)"
    and "Ack (ErrorMessage m) \<in> set sent"
  shows "st' = st"
  using assms
  by (auto simp: updateSession_def call_fn_Inr Let_def
      split: option.splits sum.splits if_splits dest: send_updates_only_emits)

lemma handle_rejected:
  assumes "handle now e st = Inr (st', sent)" and "Ack (ErrorMessage m) \<in> set sent"
  shows "st' = st"
  using assms
  by (cases e)
    (auto simp: connection_def ping_def disconnect_def call_fn_Inr
      dest: reboot_rejected createSession_rejected joinSession_rejected leaveSession_rejected
        updateSession_rejected
      split: option.splits sum.splits)

lemma legacy_rejected:
  "(post_sessions_create newId now body st = (st', Status c m) \<longrightarrow> st' = st) \<and>
   (post_sessions_update sid now body st = (st', Status c m) \<longrightarrow> st' = st) \<and>
   (get_sessions sid now st = (st', Status c m) \<longrightarrow> st' = st)"
  by (auto simp: post_sessions_create_def post_sessions_update_def get_sessions_def Let_def
      split: option.splits if_splits)

section \<open>Where the code departs from its own rules\<close>

text \<open>
  C8. \<open>createSession\<close> and \<open>reboot\<close> refuse a negative \<open>videoId\<close>;
  \<open>POST /sessions/create\<close> tests only that it is an integer. With the body
  \<open>{videoId: -1}\<close> it answers with the new session and stores it, with \<open>videoId\<close>
  \<open>-1\<close>.
\<close>

theorem post_sessions_create_accepts_negative_videoId:
  "post_sessions_create session1 1000 [(''videoId'', JNumber (Whole (- 1)))] init =
     (\<lparr>sessions = [(session1, legacy_session\<lparr>videoId := - 1\<rparr>)], users = Map.empty\<rparr>,
      Json (legacy_session\<lparr>videoId := - 1\<rparr>))
   \<and> run [(1000, PostSessionsCreate session1 [(''videoId'', JNumber (Whole (- 1)))])] init =
     Some (Inr \<lparr>sessions = [(session1, legacy_session\<lparr>videoId := - 1\<rparr>)], users = Map.empty\<rparr>)
   \<and> createSession userA session1 1000 (JNumber (Whole (- 1))) True one_user =
     Inr (one_user, [Ack (ErrorMessage ''Invalid video ID.'')])"
  by (simp add: post_sessions_create_def own_prop_def Let_def init_def unused_id_def
      legacy_session_def createSession_def call_fn_def)

text \<open>
  C5. \<open>joinSession\<close> refuses a user who is in a session; \<open>createSession\<close> and \<open>reboot\<close>
  do not look. User A connects, creates session 1 and then creates session 2: user A
  is in the member lists of both, and the \<open>sessionId\<close> of user A is session 2.
\<close>

theorem createSession_twice_keeps_old_membership:
  "run [(1000, Connection userA 1),
        (2000, CreateSession userA session1 (JNumber (Whole 42)) True),
        (4000, CreateSession userA session2 (JNumber (Whole 43)) True)] init =
     Some (Inr \<lparr>sessions =
                  [(session1, party_session\<lparr>userIds := [userA]\<rparr>),
                   (session2, \<lparr>session_id = session2, lastActivity = Some 4000,
                               lastKnownTime = 0, lastKnownTimeUpdatedAt = Some 4000,
                               state = Paused, userIds = [userA], videoId = 43\<rparr>)],
                users = [userA \<mapsto> \<lparr>user_id = userA, sessionId = Some session2, socket = 1\<rparr>]\<rparr>)"
  by (simp add: init_def unused_id_def connection_def createSession_def call_fn_def
      getTime_def party_session_def)

text \<open>
  C7. After \<open>stale_member_run\<close>, user A is gone from the registry and still in the
  member list of session 1, where user B is. User B then sends a valid
  \<open>updateSession\<close>: the loop reads \<open>users[id].socket\<close> for the id of user A, and the
  handler throws a TypeError. A handler also throws when its payload is \<open>null\<close>:
  in the state \<open>party\<close>, \<open>updateSession(null)\<close> of user A reads
  \<open>data.lastKnownTime\<close>.
\<close>

theorem updateSession_throws_on_stale_member:
  "run stale_member_run init =
     Some (Inr \<lparr>sessions = [(session1, party_session)],
                users = (users party)(userA := None)\<rparr>)
   \<and> updateSession userB 6000 (update_data 10 6000 ''playing'') True
       \<lparr>sessions = [(session1, party_session)], users = (users party)(userA := None)\<rparr> =
     Inl TypeError
   \<and> run (stale_member_run @ [(6000, UpdateSession userB (update_data 10 6000 ''playing'') True)])
       init = Some (Inl TypeError)
   \<and> updateSession userA 6000 JNull True party = Inl TypeError"
  by (simp add: stale_member_run_def init_def unused_id_def connection_def createSession_def
      joinSession_def disconnect_def leave_def delete_if_empty_def updateSession_def call_fn_def
      update_data_def own_prop_def time_clip_def max_time_def getTime_def party_def
      party_session_def fun_upd_twist)

text \<open>
  The same missing test lets a user be listed twice. User B, already in session 1 of
  the state \<open>party\<close>, reboots it; the next update of user A is sent to user B twice.
\<close>

lemma reboot_in_own_session_doubles_the_update:
  "(case reboot userB 3000 (reboot_data session1 7 1500 ''playing'' 42) True party of
      Inl e \<Rightarrow> False
    | Inr (st, sent) \<Rightarrow>
        map_option userIds (map_of (sessions st) session1) = Some [userA, userB, userB] \<and>
        updateSession userA 6001 (update_data 10 6000 ''playing'') True st =
          Inr (st\<lparr>sessions := [(session1,
                     party_session\<lparr>lastActivity := Some 6001, lastKnownTime := 10,
                                   lastKnownTimeUpdatedAt := Some 6000, state := Playing,
                                   userIds := [userA, userB, userB]\<rparr>)]\<rparr>,
               [Ack UpdateReply, Emit 2 (UpdateMessage 10 (Whole 6000) Playing),
                Emit 2 (UpdateMessage 10 (Whole 6000) Playing)]))"
  by (simp add: reboot_def reboot_session_def reboot_reply_def reboot_data_def
      updateSession_def update_data_def own_prop_def call_fn_def getTime_def time_clip_def
      max_time_def party_def party_session_def)

end
